theory Spec2Isabelle
  imports Complex_Main
begin

section \<open>The paper-trading ledger (paper\_trading\_polymarket.py)\<close>

text \<open>
  Python floats are modelled as \<^typ>\<open>real\<close>: the accounting identities below are those of
  exact arithmetic, rounding is not modelled. A pandas table is the list of its rows, in
  row order. The CSV files are write-only mirrors of the tables, so the \<open>_save_*\<close> calls
  have no counterpart. Every \<open>datetime.now()\<close> of one \<open>place_order\<close> call is the
  parameter \<open>now\<close>, already formatted.
\<close>

record trade =
  t_timestamp :: string
  t_trade_id :: string
  t_market_slug :: string
  t_market_title :: string
  t_side :: string
  t_token_id :: string
  t_price :: real
  t_size :: real
  t_usd_value :: real
  t_order_type :: string
  t_status :: string
  t_pnl :: real
  t_notes :: string

record position =
  p_market_slug :: string
  p_market_title :: string
  p_token_id :: string
  p_side :: string
  p_entry_price :: real
  p_current_price :: real
  p_shares :: real
  p_entry_value :: real
  p_current_value :: real
  p_unrealized_pnl :: real
  p_opened_at :: string

record balance_snapshot =
  b_timestamp :: string
  b_balance :: real
  b_total_pnl :: real

record engine =
  starting_balance :: real
  balance :: real
  trades_df :: "trade list"
  positions_df :: "position list"
  balance_history :: "balance_snapshot list"

definition closed_trades :: "trade list \<Rightarrow> trade list" where
  "closed_trades ts = filter (\<lambda>t. t_status t = ''CLOSED'') ts"

definition recalculate_balance :: "string \<Rightarrow> engine \<Rightarrow> engine" where
  "recalculate_balance now e =
     (if trades_df e = [] then e\<lparr>balance := starting_balance e\<rparr>
      else
        let realized_pnl =
              (if closed_trades (trades_df e) \<noteq> []
               then sum_list (map t_pnl (closed_trades (trades_df e))) else 0);
            unrealized_pnl =
              (if positions_df e \<noteq> []
               then sum_list (map p_unrealized_pnl (positions_df e)) else 0);
            total_pnl = realized_pnl + unrealized_pnl;
            balance_update =
              \<lparr>b_timestamp = now,
               b_balance = starting_balance e + realized_pnl,
               b_total_pnl = total_pnl\<rparr>
        in e\<lparr>balance := starting_balance e + realized_pnl,
             balance_history := balance_history e @ [balance_update]\<rparr>)"

definition add_position ::
  "string \<Rightarrow> string \<Rightarrow> string \<Rightarrow> string \<Rightarrow> string \<Rightarrow> real \<Rightarrow> real \<Rightarrow> real \<Rightarrow> engine \<Rightarrow> engine"
where
  "add_position now market_slug market_title token_id side entry_price shares entry_value e =
     e\<lparr>positions_df := positions_df e @
        [\<lparr>p_market_slug = market_slug,
          p_market_title = market_title,
          p_token_id = token_id,
          p_side = side,
          p_entry_price = entry_price,
          p_current_price = entry_price,
          p_shares = shares,
          p_entry_value = entry_value,
          p_current_value = entry_value,
          p_unrealized_pnl = 0,
          p_opened_at = now\<rparr>]\<rparr>"

definition pos_mask :: "string \<Rightarrow> string \<Rightarrow> position \<Rightarrow> bool" where
  "pos_mask market_slug token_id p \<longleftrightarrow>
     p_market_slug p = market_slug \<and> p_token_id p = token_id"

definition buy_trade_mask :: "string \<Rightarrow> string \<Rightarrow> trade \<Rightarrow> bool" where
  "buy_trade_mask market_slug token_id t \<longleftrightarrow>
     t_market_slug t = market_slug \<and> t_token_id t = token_id \<and>
     t_side t = ''BUY'' \<and> t_status t = ''OPEN''"

definition close_position :: "string \<Rightarrow> string \<Rightarrow> real \<Rightarrow> real \<Rightarrow> engine \<Rightarrow> engine" where
  "close_position market_slug token_id exit_price shares e =
     (case filter (pos_mask market_slug token_id) (positions_df e) of
        [] \<Rightarrow> e
      | pos # _ \<Rightarrow>
          let entry_value = p_entry_value pos;
              exit_value = exit_price * shares;
              pnl = exit_value - entry_value;
              e1 = e\<lparr>balance := balance e + exit_value\<rparr>;
              e2 = (if filter (buy_trade_mask market_slug token_id) (trades_df e1) \<noteq> []
                    then e1\<lparr>trades_df :=
                           map (\<lambda>t. if buy_trade_mask market_slug token_id t
                                     then t\<lparr>t_status := ''CLOSED'', t_pnl := pnl\<rparr> else t)
                               (trades_df e1)\<rparr>
                    else e1)
          in e2\<lparr>positions_df :=
                  filter (\<lambda>p. \<not> pos_mask market_slug token_id p) (positions_df e2)\<rparr>)"

text \<open>
  \<open>place_order\<close> returns the trade id, or \<open>None\<close> when the balance check refuses a BUY.
  Any \<open>side\<close> other than the string BUY takes the closing branch, as in the source.
\<close>

definition place_order ::
  "string \<Rightarrow> string \<Rightarrow> string \<Rightarrow> string \<Rightarrow> string \<Rightarrow> real \<Rightarrow> real \<Rightarrow> string \<Rightarrow> string
     \<Rightarrow> engine \<Rightarrow> string option \<times> engine"
where
  "place_order now market_slug market_title token_id side price size' order_type notes e =
     (let usd_value = price * size' in
      if side = ''BUY'' \<and> usd_value > balance e then (None, e)
      else
        let trade_id = ''PAPER_'' @ now;
            tr = \<lparr>t_timestamp = now,
                  t_trade_id = trade_id,
                  t_market_slug = market_slug,
                  t_market_title = market_title,
                  t_side = side,
                  t_token_id = token_id,
                  t_price = price,
                  t_size = size',
                  t_usd_value = usd_value,
                  t_order_type = order_type,
                  t_status = ''OPEN'',
                  t_pnl = 0,
                  t_notes = notes\<rparr>;
            e1 = e\<lparr>trades_df := trades_df e @ [tr]\<rparr>;
            e2 = (if side = ''BUY'' then e1\<lparr>balance := balance e1 - usd_value\<rparr> else e1);
            e3 = (if side = ''BUY''
                  then add_position now market_slug market_title token_id side price size' usd_value e2
                  else close_position market_slug token_id price size' e2)
        in (Some trade_id, recalculate_balance now e3))"

definition update_position_prices :: "string \<Rightarrow> real \<Rightarrow> engine \<Rightarrow> engine" where
  "update_position_prices market_slug current_price e =
     (if filter (\<lambda>p. p_market_slug p = market_slug) (positions_df e) \<noteq> []
      then e\<lparr>positions_df :=
             map (\<lambda>p. if p_market_slug p = market_slug
                       then p\<lparr>p_current_price := current_price,
                              p_current_value := p_shares p * current_price,
                              p_unrealized_pnl := p_shares p * current_price - p_entry_value p\<rparr>
                       else p)
                 (positions_df e)\<rparr>
      else e)"

text \<open>
  The constructor on a first run: no CSV file exists, the three tables are empty, and
  \<open>_recalculate_balance\<close> is called once.
\<close>

definition PaperTradingEngine :: "string \<Rightarrow> real \<Rightarrow> engine" where
  "PaperTradingEngine now sb =
     recalculate_balance now
       \<lparr>starting_balance = sb, balance = sb, trades_df = [], positions_df = [],
        balance_history = []\<rparr>"

text \<open>
  The states the engine can be in during one run that started with empty tables: the
  constructor, then any sequence of its operations. (Tables read back from CSV files
  are not modelled.)
\<close>

inductive reachable :: "engine \<Rightarrow> bool" where
  r_init: "reachable (PaperTradingEngine now sb)"
| r_order: "reachable e \<Longrightarrow>
     reachable (snd (place_order now market_slug market_title token_id side price size' order_type notes e))"
| r_prices: "reachable e \<Longrightarrow> reachable (update_position_prices market_slug current_price e)"
| r_recalc: "reachable e \<Longrightarrow> reachable (recalculate_balance now e)"

definition realized_pnl :: "trade list \<Rightarrow> real" where
  "realized_pnl ts = sum_list (map t_pnl (closed_trades ts))"

text \<open>
  Two properties of the tables that every reachable state has: the balance is the
  starting balance plus the realized profit, and every pair has as many position rows
  as open BUY trades.
\<close>

definition counts_agree :: "engine \<Rightarrow> bool" where
  "counts_agree e \<longleftrightarrow>
     (\<forall>m t. length (filter (pos_mask m t) (positions_df e)) =
            length (filter (buy_trade_mask m t) (trades_df e)))"

text \<open>The two rows that a call of \<open>place_order\<close> builds, named for the statements below.\<close>

definition new_trade ::
  "string \<Rightarrow> string \<Rightarrow> string \<Rightarrow> string \<Rightarrow> string \<Rightarrow> real \<Rightarrow> real \<Rightarrow> string \<Rightarrow> string \<Rightarrow> trade"
where
  "new_trade now m mt t sd p s ot n =
     \<lparr>t_timestamp = now, t_trade_id = ''PAPER_'' @ now, t_market_slug = m,
      t_market_title = mt, t_side = sd, t_token_id = t, t_price = p,
      t_size = s, t_usd_value = p * s, t_order_type = ot,
      t_status = ''OPEN'', t_pnl = 0, t_notes = n\<rparr>"

definition new_position ::
  "string \<Rightarrow> string \<Rightarrow> string \<Rightarrow> string \<Rightarrow> string \<Rightarrow> real \<Rightarrow> real \<Rightarrow> position"
where
  "new_position now m mt t sd p s =
     \<lparr>p_market_slug = m, p_market_title = mt, p_token_id = t, p_side = sd,
      p_entry_price = p, p_current_price = p, p_shares = s, p_entry_value = p * s,
      p_current_value = p * s, p_unrealized_pnl = 0, p_opened_at = now\<rparr>"

section \<open>Order routing (nice\_funcs\_polymarket.py), paper mode\<close>

text \<open>
  \<open>PAPER_TRADING_ENABLED\<close> is true unless the environment says otherwise, and then the
  module-level \<open>paper_engine\<close> exists; this is the mode modelled. In live mode the order
  goes to the exchange client, which is outside this development.
\<close>

definition py_or :: "string \<Rightarrow> string \<Rightarrow> string" where
  "py_or s d = (if s = [] then d else s)"

definition get_balance :: "engine \<Rightarrow> real" where
  "get_balance e = balance e"

definition place_market_order ::
  "string \<Rightarrow> string \<Rightarrow> real \<Rightarrow> string \<Rightarrow> string \<Rightarrow> string \<Rightarrow> string \<Rightarrow> engine
     \<Rightarrow> string option \<times> engine"
where
  "place_market_order now token_id size' side market_slug market_title notes e =
     (let simulated_price = 0.50 in
      place_order now (py_or market_slug ''unknown'') (py_or market_title ''Unknown Market'')
        token_id side simulated_price size' ''MARKET''
        (py_or notes ''Market order (simulated price)'') e)"

section \<open>The whale tracker (agents/whale\_tracker\_polymarket.py)\<close>

text \<open>
  The settings at the head of the module are a record, with the values of the source as
  \<open>default_config\<close>. A Python dict of statistics is an association list; it is falsy
  exactly when it is empty.
\<close>

record config =
  MIN_WHALE_TRADE_SIZE :: real
  MIN_WHALE_WIN_RATE :: real
  MIN_AI_CONSENSUS :: real
  AUTO_COPY_ENABLED :: bool
  MAX_POSITION_SIZE :: real
  COPY_PERCENTAGE :: real

definition default_config :: config where
  "default_config =
     \<lparr>MIN_WHALE_TRADE_SIZE = 10000, MIN_WHALE_WIN_RATE = 60, MIN_AI_CONSENSUS = 0.70,
      AUTO_COPY_ENABLED = False, MAX_POSITION_SIZE = 100, COPY_PERCENTAGE = 10\<rparr>"

type_synonym stats = "(string \<times> real) list"

definition dict_get :: "stats \<Rightarrow> string \<Rightarrow> real \<Rightarrow> real" where
  "dict_get d k dflt = (case map_of d k of None \<Rightarrow> dflt | Some v \<Rightarrow> v)"

record whale_trade =
  wt_timestamp :: string
  wt_market_slug :: string
  wt_market_title :: string
  wt_wallet_address :: string
  wt_side :: string
  wt_price :: real
  wt_size :: real
  wt_usd_value :: real
  wt_trader_win_rate :: real
  wt_ai_validated :: bool
  wt_copied :: bool

record whale_wallet =
  wallet_address :: string
  win_rate :: real
  total_volume :: real
  profit_loss :: real
  first_seen :: string
  last_seen :: string
  trade_count :: int

record copy_signal =
  cs_timestamp :: string
  cs_market_slug :: string
  cs_market_title :: string
  cs_whale_wallet :: string
  cs_whale_side :: string
  cs_whale_size :: real
  cs_our_side :: string
  cs_our_size :: real
  cs_ai_consensus :: real
  cs_executed :: bool
  cs_outcome :: string

record agent =
  ws_connected :: bool
  total_trades_tracked :: int
  whale_trades_detected :: int
  ai_validated_trades :: int
  trades_copied :: int
  whale_trades_df :: "whale_trade list"
  whale_wallets_df :: "whale_wallet list"
  copy_signals_df :: "copy_signal list"

text \<open>The agent after its constructor on a first run: no CSV file exists.\<close>

definition WhaleTrackerAgent :: agent where
  "WhaleTrackerAgent =
     \<lparr>ws_connected = False, total_trades_tracked = 0, whale_trades_detected = 0,
      ai_validated_trades = 0, trades_copied = 0, whale_trades_df = [],
      whale_wallets_df = [], copy_signals_df = []\<rparr>"

text \<open>
  \<open>_update_whale_wallet\<close>. The branch for a known wallet reads the clock once (\<open>now\<close>);
  the branch for a new wallet reads it twice, for \<open>first_seen\<close> (\<open>now\<close>) and then for
  \<open>last_seen\<close> (\<open>now'\<close>).
\<close>

definition update_whale_wallet :: "string \<Rightarrow> string \<Rightarrow> string \<Rightarrow> stats \<Rightarrow> agent \<Rightarrow> agent" where
  "update_whale_wallet now now' wallet stats a =
     (if wallet \<in> set (map wallet_address (whale_wallets_df a))
      then a\<lparr>whale_wallets_df :=
             map (\<lambda>w. if wallet_address w = wallet
                       then let w1 = w\<lparr>last_seen := now\<rparr>;
                                w2 = w1\<lparr>trade_count := trade_count w1 + 1\<rparr>
                            in if stats \<noteq> []
                               then w2\<lparr>win_rate := dict_get stats ''win_rate'' 0,
                                       total_volume := dict_get stats ''total_volume'' 0,
                                       profit_loss := dict_get stats ''profit_loss'' 0\<rparr>
                               else w2
                       else w)
                 (whale_wallets_df a)\<rparr>
      else
        let new_whale =
              \<lparr>wallet_address = wallet,
               win_rate = (if stats \<noteq> [] then dict_get stats ''win_rate'' 0 else 0),
               total_volume = (if stats \<noteq> [] then dict_get stats ''total_volume'' 0 else 0),
               profit_loss = (if stats \<noteq> [] then dict_get stats ''profit_loss'' 0 else 0),
               first_seen = now,
               last_seen = now',
               trade_count = 1\<rparr>
        in a\<lparr>whale_wallets_df := whale_wallets_df a @ [new_whale]\<rparr>)"

text \<open>
  \<open>_evaluate_copy_trade\<close>. The verdict of \<open>ai_validate_trade\<close> is the parameter
  \<open>ai_approved\<close>, and \<open>fmt\<close> is the formatting of the win rate to one decimal.
\<close>

definition evaluate_copy_trade ::
  "config \<Rightarrow> bool \<Rightarrow> (real \<Rightarrow> string) \<Rightarrow> string \<Rightarrow> string \<Rightarrow> string \<Rightarrow> string \<Rightarrow> real \<Rightarrow> string
     \<Rightarrow> real \<Rightarrow> agent \<times> engine \<Rightarrow> agent \<times> engine"
where
  "evaluate_copy_trade cfg ai_approved fmt now market_slug market_title whale_side
       whale_size_usd whale_wallet whale_win_rate ae =
     (let a = fst ae; e = snd ae in
      if \<not> ai_approved then (a, e)
      else
        let a1 = a\<lparr>ai_validated_trades := ai_validated_trades a + 1\<rparr>;
            copy_size_usd =
              min (whale_size_usd * (COPY_PERCENTAGE cfg / 100)) (MAX_POSITION_SIZE cfg);
            bal = get_balance e
        in if bal < copy_size_usd then (a1, e)
           else if AUTO_COPY_ENABLED cfg then
             let token_id = (if whale_side = ''YES'' then market_slug @ ''_YES_TOKEN''
                             else market_slug @ ''_NO_TOKEN'');
                 res = place_market_order now token_id copy_size_usd ''BUY'' market_slug
                         market_title
                         (''Whale copy: '' @ take 16 whale_wallet @ ''... | Win rate: '' @
                          fmt whale_win_rate @ ''% | AI validated'') e;
                 order_id = fst res;
                 executed = (order_id \<noteq> None);
                 signal =
                   \<lparr>cs_timestamp = now,
                    cs_market_slug = market_slug,
                    cs_market_title = market_title,
                    cs_whale_wallet = whale_wallet,
                    cs_whale_side = whale_side,
                    cs_whale_size = whale_size_usd,
                    cs_our_side = whale_side,
                    cs_our_size = copy_size_usd,
                    cs_ai_consensus = MIN_AI_CONSENSUS cfg,
                    cs_executed = executed,
                    cs_outcome = ''PENDING''\<rparr>;
                 a2 = a1\<lparr>copy_signals_df := copy_signals_df a1 @ [signal]\<rparr>;
                 a3 = (if executed then a2\<lparr>trades_copied := trades_copied a2 + 1\<rparr> else a2)
             in (a3, snd res)
           else (a1, e))"

text \<open>
  A feed message after \<open>json.loads\<close>. A field of the payload read with \<open>float\<close> is
  absent (the default 0 is used), holds a number, or holds something \<open>float\<close> rejects.
\<close>

datatype num_field = Missing | Num real | NotNum

record payload =
  pl_eventSlug :: "string option"
  pl_title :: "string option"
  pl_trader :: "string option"
  pl_side :: "string option"
  pl_price :: num_field
  pl_size :: num_field

datatype ws_data =
  NotJson
| NotDict
| Dict (d_type: "string option") (d_topic: "string option") (d_payload: payload)

fun to_float :: "num_field \<Rightarrow> real option" where
  "to_float Missing = Some 0"
| "to_float (Num r) = Some r"
| "to_float NotNum = None"

definition str_get :: "string option \<Rightarrow> string \<Rightarrow> string" where
  "str_get v dflt = (case v of None \<Rightarrow> dflt | Some s \<Rightarrow> s)"

text \<open>What the outside world answers during the handling of one message.\<close>

record external =
  x_now :: string
  x_now' :: string
  x_trader_stats :: stats
  x_ai_approved :: bool
  x_fmt :: "real \<Rightarrow> string"

definition process_whale_trade ::
  "config \<Rightarrow> external \<Rightarrow> payload \<Rightarrow> real \<Rightarrow> agent \<times> engine \<Rightarrow> agent \<times> engine"
where
  "process_whale_trade cfg x trade_data usd_value ae =
     (let a = fst ae; e = snd ae;
          a1 = a\<lparr>whale_trades_detected := whale_trades_detected a + 1\<rparr>;
          market_slug = str_get (pl_eventSlug trade_data) [];
          market_title = str_get (pl_title trade_data) ''Unknown'';
          wallet = str_get (pl_trader trade_data) ''Unknown'';
          side = str_get (pl_side trade_data) []
      in case (to_float (pl_price trade_data), to_float (pl_size trade_data)) of
           (Some price, Some size') \<Rightarrow>
             let trader_stats = x_trader_stats x;
                 wr = dict_get trader_stats ''win_rate'' 0;
                 is_quality_whale = (wr \<ge> MIN_WHALE_WIN_RATE cfg);
                 new_row =
                   \<lparr>wt_timestamp = x_now x,
                    wt_market_slug = market_slug,
                    wt_market_title = market_title,
                    wt_wallet_address = wallet,
                    wt_side = side,
                    wt_price = price,
                    wt_size = size',
                    wt_usd_value = usd_value,
                    wt_trader_win_rate = wr,
                    wt_ai_validated = False,
                    wt_copied = False\<rparr>;
                 a2 = a1\<lparr>whale_trades_df := whale_trades_df a1 @ [new_row]\<rparr>;
                 a3 = update_whale_wallet (x_now x) (x_now' x) wallet trader_stats a2
             in if is_quality_whale \<and> AUTO_COPY_ENABLED cfg
                then evaluate_copy_trade cfg (x_ai_approved x) (x_fmt x) (x_now x) market_slug
                       market_title side usd_value wallet wr (a3, e)
                else (a3, e)
         | _ \<Rightarrow> (a1, e))"

definition on_ws_message ::
  "config \<Rightarrow> external \<Rightarrow> ws_data \<Rightarrow> agent \<times> engine \<Rightarrow> agent \<times> engine"
where
  "on_ws_message cfg x msg ae =
     (case msg of
        NotJson \<Rightarrow> ae
      | NotDict \<Rightarrow> ae
      | Dict ty topic pl \<Rightarrow>
          if ty = Some ''subscribed'' then ((fst ae)\<lparr>ws_connected := True\<rparr>, snd ae)
          else if ty = Some ''pong'' then ae
          else if topic = Some ''activity'' \<and> ty = Some ''orders_matched'' then
            let a1 = (fst ae)\<lparr>total_trades_tracked := total_trades_tracked (fst ae) + 1\<rparr>;
                a2 = (if \<not> ws_connected a1 then a1\<lparr>ws_connected := True\<rparr> else a1)
            in case (to_float (pl_price pl), to_float (pl_size pl)) of
                 (Some price, Some size') \<Rightarrow>
                   let usd_value = price * size'
                   in if usd_value \<ge> MIN_WHALE_TRADE_SIZE cfg
                      then process_whale_trade cfg x pl usd_value (a2, snd ae)
                      else (a2, snd ae)
               | _ \<Rightarrow> (a2, snd ae)
          else ae)"

section \<open>Properties of the ledger\<close>

lemma recalc_balance: "balance (recalculate_balance now e) = starting_balance e + realized_pnl (trades_df e)"
  by (simp add: recalculate_balance_def realized_pnl_def closed_trades_def Let_def)

lemma recalc_fields: "starting_balance (recalculate_balance now e) = starting_balance e"
  "trades_df (recalculate_balance now e) = trades_df e"
  "positions_df (recalculate_balance now e) = positions_df e"
  by (simp_all add: recalculate_balance_def Let_def)

lemma close_position_sb: "starting_balance (close_position m t p s e) = starting_balance e"
  by (simp add: close_position_def Let_def split: list.splits)

lemma place_order_sb: "starting_balance (snd (place_order now m mt t sd p s ot n e)) = starting_balance e"
  by (simp add: place_order_def Let_def recalc_fields add_position_def close_position_sb)

lemma place_order_balance:
  "place_order now m mt t sd p s ot n e = (Some tid, e') \<Longrightarrow>
   balance e' = starting_balance e + realized_pnl (trades_df e')"
  by (auto simp add: place_order_def Let_def recalc_fields recalc_balance add_position_def close_position_sb split: if_splits)

lemma closed_not_open: "\<not> buy_trade_mask m t (tr\<lparr>t_status := ''CLOSED'', t_pnl := v\<rparr>)"
  by (simp add: buy_trade_mask_def)

lemma count_closed_same:
  "filter (buy_trade_mask m t) (map (\<lambda>tr. if buy_trade_mask m t tr then tr\<lparr>t_status := ''CLOSED'', t_pnl := v\<rparr> else tr) ts) = []"
  by (induction ts) (simp_all add: closed_not_open)

lemma count_closed_other:
  "(m, t) \<noteq> (m0, t0) \<Longrightarrow>
   filter (buy_trade_mask m t) (map (\<lambda>tr. if buy_trade_mask m0 t0 tr then tr\<lparr>t_status := ''CLOSED'', t_pnl := v\<rparr> else tr) ts)
   = filter (buy_trade_mask m t) ts"
  by (induction ts) (auto simp: buy_trade_mask_def)

lemma pos_filter_other:
  "(m, t) \<noteq> (m0, t0) \<Longrightarrow>
   filter (pos_mask m t) (filter (\<lambda>p. \<not> pos_mask m0 t0 p) ps) = filter (pos_mask m t) ps"
  by (induction ps) (auto simp: pos_mask_def)

lemma pos_filter_same:
  "filter (pos_mask m t) (filter (\<lambda>p. \<not> pos_mask m t p) ps) = []"
  by (induction ps) auto

lemma close_position_positions:
  "positions_df (close_position m t p s e) = filter (\<lambda>q. \<not> pos_mask m t q) (positions_df e)"
proof (cases "filter (pos_mask m t) (positions_df e)")
  case Nil
  then have "\<forall>q\<in>set (positions_df e). \<not> pos_mask m t q"
    by (simp add: filter_empty_conv)
  then have "filter (\<lambda>q. \<not> pos_mask m t q) (positions_df e) = positions_df e"
    by simp
  then show ?thesis using Nil by (simp add: close_position_def)
next
  case (Cons a list)
  then show ?thesis by (simp add: close_position_def Let_def)
qed

lemma map_close_id:
  assumes "filter (buy_trade_mask m t) ts = []"
  shows "map (\<lambda>tr. if buy_trade_mask m t tr then tr\<lparr>t_status := ''CLOSED'', t_pnl := v\<rparr> else tr) ts = ts"
proof -
  from assms have "\<forall>tr\<in>set ts. \<not> buy_trade_mask m t tr"
    by (simp add: filter_empty_conv)
  then show ?thesis by (simp add: map_idI)
qed

lemma close_position_trades:
  "trades_df (close_position m t p s e) =
     (case filter (pos_mask m t) (positions_df e) of
        [] \<Rightarrow> trades_df e
      | pos # _ \<Rightarrow>
          map (\<lambda>tr. if buy_trade_mask m t tr
                    then tr\<lparr>t_status := ''CLOSED'', t_pnl := p * s - p_entry_value pos\<rparr> else tr)
              (trades_df e))"
  by (simp add: close_position_def Let_def map_close_id split: list.splits)

lemma close_position_counts:
  assumes "counts_agree e"
  shows "counts_agree (close_position m0 t0 p s e)"
proof -
  have "length (filter (pos_mask m t) (positions_df (close_position m0 t0 p s e))) =
        length (filter (buy_trade_mask m t) (trades_df (close_position m0 t0 p s e)))" for m t
  proof (cases "(m, t) = (m0, t0)")
    case True
    have "filter (buy_trade_mask m0 t0) (trades_df (close_position m0 t0 p s e)) = []"
    proof (cases "filter (pos_mask m0 t0) (positions_df e)")
      case Nil
      then have "length (filter (buy_trade_mask m0 t0) (trades_df e)) = 0"
        using assms unfolding counts_agree_def by (metis list.size(3))
      then show ?thesis using Nil by (simp add: close_position_trades)
    next
      case (Cons a list)
      then show ?thesis by (simp only: close_position_trades list.case count_closed_same)
    qed
    then show ?thesis using True
      by (simp add: close_position_positions pos_filter_same)
  next
    case False
    have "filter (buy_trade_mask m t) (trades_df (close_position m0 t0 p s e)) =
          filter (buy_trade_mask m t) (trades_df e)"
      using False count_closed_other[of m t m0 t0]
      by (cases "filter (pos_mask m0 t0) (positions_df e)") (simp_all add: close_position_trades)
    moreover have "filter (pos_mask m t) (positions_df (close_position m0 t0 p s e)) =
          filter (pos_mask m t) (positions_df e)"
      using pos_filter_other[OF False] by (simp only: close_position_positions)
    ultimately show ?thesis using assms by (simp add: counts_agree_def)
  qed
  then show ?thesis by (simp add: counts_agree_def)
qed

lemma place_order_buy:
  assumes "p * s \<le> balance e"
  shows "place_order now m mt t ''BUY'' p s ot n e =
     (Some (''PAPER_'' @ now),
      recalculate_balance now
        (e\<lparr>trades_df := trades_df e @ [new_trade now m mt t ''BUY'' p s ot n],
           balance := balance e - p * s,
           positions_df := positions_df e @ [new_position now m mt t ''BUY'' p s]\<rparr>))"
  using assms by (simp add: place_order_def Let_def add_position_def new_trade_def new_position_def)

lemma place_order_buy_refused:
  assumes "p * s > balance e"
  shows "place_order now m mt t ''BUY'' p s ot n e = (None, e)"
  using assms by (simp add: place_order_def Let_def)

lemma place_order_other:
  assumes "sd \<noteq> ''BUY''"
  shows "place_order now m mt t sd p s ot n e =
     (Some (''PAPER_'' @ now),
      recalculate_balance now
        (close_position m t p s (e\<lparr>trades_df := trades_df e @ [new_trade now m mt t sd p s ot n]\<rparr>)))"
  using assms by (simp add: place_order_def Let_def new_trade_def)

lemma place_order_counts:
  assumes "counts_agree e"
  shows "counts_agree (snd (place_order now m0 mt t0 sd p s ot n e))"
proof (cases "sd = ''BUY''")
  case True
  show ?thesis
  proof (cases "p * s \<le> balance e")
    case False
    then show ?thesis using True assms by (simp add: place_order_buy_refused)
  next
    case ok: True
    have "length (filter (pos_mask m t) (positions_df e @ [new_position now m0 mt t0 ''BUY'' p s])) =
          length (filter (buy_trade_mask m t) (trades_df e @ [new_trade now m0 mt t0 ''BUY'' p s ot n]))" for m t
      using assms[unfolded counts_agree_def, rule_format, of m t]
      by (simp add: pos_mask_def buy_trade_mask_def new_position_def new_trade_def)
    then show ?thesis using True ok
      by (simp add: place_order_buy recalc_fields counts_agree_def)
  qed
next
  case False
  let ?tr = "new_trade now m0 mt t0 sd p s ot n"
  have "filter (buy_trade_mask m t) (trades_df e @ [?tr]) = filter (buy_trade_mask m t) (trades_df e)" for m t
    using False by (simp add: buy_trade_mask_def new_trade_def)
  then have "counts_agree (e\<lparr>trades_df := trades_df e @ [?tr]\<rparr>)"
    using assms by (simp add: counts_agree_def)
  then have "counts_agree (close_position m0 t0 p s (e\<lparr>trades_df := trades_df e @ [?tr]\<rparr>))"
    by (rule close_position_counts)
  then show ?thesis using False
    by (simp add: place_order_other recalc_fields counts_agree_def)
qed

lemma prices_counts:
  assumes "counts_agree e"
  shows "counts_agree (update_position_prices m0 cp e)"
proof -
  have "filter (pos_mask m t) (map (\<lambda>p. if p_market_slug p = m0
                       then p\<lparr>p_current_price := cp,
                              p_current_value := p_shares p * cp,
                              p_unrealized_pnl := p_shares p * cp - p_entry_value p\<rparr>
                       else p) ps) = map (\<lambda>p. if p_market_slug p = m0
                       then p\<lparr>p_current_price := cp,
                              p_current_value := p_shares p * cp,
                              p_unrealized_pnl := p_shares p * cp - p_entry_value p\<rparr>
                       else p) (filter (pos_mask m t) ps)" for m t ps
    by (induction ps) (auto simp: pos_mask_def)
  then show ?thesis using assms
    by (simp add: update_position_prices_def counts_agree_def)
qed

lemma reachable_counts: "reachable e \<Longrightarrow> counts_agree e"
proof (induction rule: reachable.induct)
  case (r_init now sb)
  then show ?case by (simp add: PaperTradingEngine_def recalculate_balance_def counts_agree_def)
next
  case (r_order e now market_slug market_title token_id side price size' order_type nts)
  then show ?case by (simp add: place_order_counts)
next
  case (r_prices e market_slug current_price)
  then show ?case by (simp add: prices_counts)
next
  case (r_recalc e now)
  then show ?case by (simp add: counts_agree_def recalc_fields)
qed

lemma reachable_balance: "reachable e \<Longrightarrow> balance e = starting_balance e + realized_pnl (trades_df e)"
proof (induction rule: reachable.induct)
  case (r_init now sb)
  then show ?case by (simp add: PaperTradingEngine_def recalculate_balance_def realized_pnl_def closed_trades_def)
next
  case (r_order e now market_slug market_title token_id side price size' order_type nts)
  show ?case
  proof (cases "fst (place_order now market_slug market_title token_id side price size' order_type nts e)")
    case None
    then have "snd (place_order now market_slug market_title token_id side price size' order_type nts e) = e"
      by (auto simp: place_order_def Let_def split: if_splits)
    then show ?thesis using r_order.IH by simp
  next
    case (Some a)
    then show ?thesis
      using place_order_balance[of now market_slug market_title token_id side price size' order_type nts e a
          "snd (place_order now market_slug market_title token_id side price size' order_type nts e)"]
      by (simp add: place_order_sb prod_eq_iff)
  qed
next
  case (r_prices e market_slug current_price)
  then show ?case by (simp add: update_position_prices_def)
next
  case (r_recalc e now)
  then show ?case by (simp add: recalc_balance recalc_fields)
qed

lemma fresh_engine:
  "PaperTradingEngine now sb =
     \<lparr>starting_balance = sb, balance = sb, trades_df = [], positions_df = [],
      balance_history = []\<rparr>"
  by (simp add: PaperTradingEngine_def recalculate_balance_def)

lemma realized_pnl_append:
  "realized_pnl (xs @ ys) = realized_pnl xs + realized_pnl ys"
  by (simp add: realized_pnl_def closed_trades_def)

lemma realized_pnl_open: "realized_pnl [new_trade now m mt t sd p s ot n] = 0"
  by (simp add: realized_pnl_def closed_trades_def new_trade_def)

text \<open>
  Claim C1. A BUY whose cost exceeds the balance is refused with no change of state
  (\<open>place_order_buy_refused\<close>), and an accepted BUY appends the OPEN trade and the position
  (\<open>place_order_buy\<close>). The claim also asks that the balance after an accepted BUY be the
  balance before minus \<open>price * size\<close>. The code does subtract that amount, and then
  \<open>_recalculate_balance\<close> overwrites the result: on a fresh engine with 10000, a BUY of
  100 shares at 0.65 is accepted and the balance is still 10000, not 9935.
\<close>

theorem C1_buy_debit_overwritten:
  "fst (place_order ''t1'' ''election'' ''Election'' ''YES_TOKEN'' ''BUY'' 0.65 100 ''LIMIT'' []
          (PaperTradingEngine ''t0'' 10000)) = Some ''PAPER_t1'' \<and>
   0.65 * 100 \<le> balance (PaperTradingEngine ''t0'' 10000) \<and>
   balance (snd (place_order ''t1'' ''election'' ''Election'' ''YES_TOKEN'' ''BUY'' 0.65 100 ''LIMIT'' []
          (PaperTradingEngine ''t0'' 10000))) = 10000 \<and>
   balance (snd (place_order ''t1'' ''election'' ''Election'' ''YES_TOKEN'' ''BUY'' 0.65 100 ''LIMIT'' []
          (PaperTradingEngine ''t0'' 10000)))
     \<noteq> balance (PaperTradingEngine ''t0'' 10000) - 0.65 * 100"
  by (simp add: fresh_engine place_order_buy recalc_balance realized_pnl_open)

lemma buy_keeps_balance:
  assumes "reachable e" "p * s \<le> balance e"
  shows "balance (snd (place_order now m mt t ''BUY'' p s ot n e)) = balance e"
  using assms
  by (simp add: place_order_buy recalc_balance realized_pnl_append realized_pnl_open
      reachable_balance)

text \<open>
  Claim C2. The balance is to stay non-negative after every successful call. Since an
  accepted BUY leaves the balance where it was (\<open>buy_keeps_balance\<close>), two BUYs of 10000
  each pass the balance check of an engine that holds 10000; selling both positions at a
  loss of 8000 each then leaves the balance at -6000, and all four calls succeed.
\<close>

theorem C2_balance_negative_after_sells:
  "0 \<le> starting_balance (PaperTradingEngine ''t0'' 10000) \<and>
   fst (place_order ''t1'' ''A'' ''Market A'' ''A_YES'' ''BUY'' 0.5 20000 ''LIMIT'' []
      (PaperTradingEngine ''t0'' 10000)) = Some ''PAPER_t1'' \<and>
   fst (place_order ''t2'' ''B'' ''Market B'' ''B_YES'' ''BUY'' 0.5 20000 ''LIMIT'' []
      (snd (place_order ''t1'' ''A'' ''Market A'' ''A_YES'' ''BUY'' 0.5 20000 ''LIMIT'' []
      (PaperTradingEngine ''t0'' 10000)))) = Some ''PAPER_t2'' \<and>
   fst (place_order ''t3'' ''A'' ''Market A'' ''A_YES'' ''SELL'' 0.1 20000 ''LIMIT'' []
      (snd (place_order ''t2'' ''B'' ''Market B'' ''B_YES'' ''BUY'' 0.5 20000 ''LIMIT'' []
      (snd (place_order ''t1'' ''A'' ''Market A'' ''A_YES'' ''BUY'' 0.5 20000 ''LIMIT'' []
      (PaperTradingEngine ''t0'' 10000)))))) = Some ''PAPER_t3'' \<and>
   fst (place_order ''t4'' ''B'' ''Market B'' ''B_YES'' ''SELL'' 0.1 20000 ''LIMIT'' []
      (snd (place_order ''t3'' ''A'' ''Market A'' ''A_YES'' ''SELL'' 0.1 20000 ''LIMIT'' []
      (snd (place_order ''t2'' ''B'' ''Market B'' ''B_YES'' ''BUY'' 0.5 20000 ''LIMIT'' []
      (snd (place_order ''t1'' ''A'' ''Market A'' ''A_YES'' ''BUY'' 0.5 20000 ''LIMIT'' []
      (PaperTradingEngine ''t0'' 10000)))))))) = Some ''PAPER_t4'' \<and>
   balance (snd (place_order ''t4'' ''B'' ''Market B'' ''B_YES'' ''SELL'' 0.1 20000 ''LIMIT'' []
      (snd (place_order ''t3'' ''A'' ''Market A'' ''A_YES'' ''SELL'' 0.1 20000 ''LIMIT'' []
      (snd (place_order ''t2'' ''B'' ''Market B'' ''B_YES'' ''BUY'' 0.5 20000 ''LIMIT'' []
      (snd (place_order ''t1'' ''A'' ''Market A'' ''A_YES'' ''BUY'' 0.5 20000 ''LIMIT'' []
      (PaperTradingEngine ''t0'' 10000))))))))) = - 6000"
  by (simp add: fresh_engine place_order_def add_position_def close_position_def
      recalculate_balance_def closed_trades_def pos_mask_def buy_trade_mask_def Let_def)

text \<open>
  Claim C10. After a call of \<open>place_order\<close> that returns a trade id, from any state, and
  after any call in a reachable state, the balance is the starting balance plus the sum
  of \<open>pnl\<close> over the CLOSED trades: the cost of open positions is not part of it.
\<close>

theorem C10_balance_is_start_plus_realized:
  assumes "fst (place_order now m mt t sd p s ot n e) \<noteq> None \<or> reachable e"
  shows "balance (snd (place_order now m mt t sd p s ot n e)) =
           starting_balance e + realized_pnl (trades_df (snd (place_order now m mt t sd p s ot n e)))"
proof (cases "fst (place_order now m mt t sd p s ot n e)")
  case None
  then have refused: "snd (place_order now m mt t sd p s ot n e) = e"
    by (auto simp: place_order_def Let_def split: if_splits)
  from None assms have "reachable e" by simp
  then show ?thesis using refused by (simp add: reachable_balance)
next
  case (Some tid)
  then have "place_order now m mt t sd p s ot n e =
      (Some tid, snd (place_order now m mt t sd p s ot n e))"
    by (simp add: prod_eq_iff)
  then show ?thesis by (rule place_order_balance)
qed

text \<open>The statement of C10 at a BUY on a fresh engine.\<close>

theorem C10_witness:
  "reachable (PaperTradingEngine ''t0'' 10000) \<and>
   balance (snd (place_order ''t1'' ''A'' ''Market A'' ''A_YES'' ''BUY'' 0.5 100 ''LIMIT'' []
      (PaperTradingEngine ''t0'' 10000))) = 10000"
  using C10_balance_is_start_plus_realized[of "''t1''" "''A''" "''Market A''" "''A_YES''" "''BUY''"
      "0.5" 100 "''LIMIT''" "[]" "PaperTradingEngine ''t0'' 10000"]
    r_init[of "''t0''" 10000]
  by (simp add: fresh_engine place_order_buy recalc_fields realized_pnl_open)

text \<open>
  Claim C5. Recalculating twice gives the balance of recalculating once and changes no
  table but the balance history; when there are trades, the second call appends a
  snapshot that differs from the one of the first call in its timestamp only, so it has
  the same balance and the same total profit. (With no trades, no snapshot is written.)
\<close>

theorem C5_recalculate_idempotent:
  "balance (recalculate_balance n2 (recalculate_balance n1 e)) = balance (recalculate_balance n1 e) \<and>
   starting_balance (recalculate_balance n2 (recalculate_balance n1 e)) = starting_balance (recalculate_balance n1 e) \<and>
   trades_df (recalculate_balance n2 (recalculate_balance n1 e)) = trades_df (recalculate_balance n1 e) \<and>
   positions_df (recalculate_balance n2 (recalculate_balance n1 e)) = positions_df (recalculate_balance n1 e) \<and>
   balance_history (recalculate_balance n2 (recalculate_balance n1 e)) =
     balance_history (recalculate_balance n1 e) @
       (if trades_df e = [] then []
        else [(last (balance_history (recalculate_balance n1 e)))\<lparr>b_timestamp := n2\<rparr>])"
  by (simp add: recalculate_balance_def Let_def)

text \<open>
  Claim C4, as stated, fails: a SELL on a pair without a position is not refused. On a
  fresh engine it returns a trade id and the trades table grows.
\<close>

theorem C4_counterexample:
  "filter (pos_mask ''A'' ''A_YES'') (positions_df (PaperTradingEngine ''t0'' 10000)) = [] \<and>
   fst (place_order ''t1'' ''A'' ''Market A'' ''A_YES'' ''SELL'' 0.5 10 ''LIMIT'' []
          (PaperTradingEngine ''t0'' 10000)) \<noteq> None \<and>
   trades_df (snd (place_order ''t1'' ''A'' ''Market A'' ''A_YES'' ''SELL'' 0.5 10 ''LIMIT'' []
          (PaperTradingEngine ''t0'' 10000))) \<noteq> trades_df (PaperTradingEngine ''t0'' 10000)"
  by (simp add: fresh_engine place_order_other close_position_trades recalc_fields)

text \<open>
  Claim C4, amended. In a reachable state, a SELL on a pair with no open position returns
  a trade id, appends exactly the OPEN trade record of that SELL, and leaves the balance,
  the earlier trade records and the positions unchanged.
\<close>

theorem C4_sell_without_position:
  assumes "reachable e" and "filter (pos_mask m t) (positions_df e) = []"
  shows "fst (place_order now m mt t ''SELL'' p s ot n e) = Some (''PAPER_'' @ now) \<and>
         balance (snd (place_order now m mt t ''SELL'' p s ot n e)) = balance e \<and>
         positions_df (snd (place_order now m mt t ''SELL'' p s ot n e)) = positions_df e \<and>
         trades_df (snd (place_order now m mt t ''SELL'' p s ot n e)) =
           trades_df e @ [new_trade now m mt t ''SELL'' p s ot n]"
proof -
  let ?e1 = "e\<lparr>trades_df := trades_df e @ [new_trade now m mt t ''SELL'' p s ot n]\<rparr>"
  have cp: "close_position m t p s ?e1 = ?e1"
    using assms(2) by (simp add: close_position_def)
  have po: "place_order now m mt t ''SELL'' p s ot n e =
      (Some (''PAPER_'' @ now), recalculate_balance now ?e1)"
    by (simp add: place_order_other cp)
  show ?thesis using assms(1)
    by (simp add: po recalc_fields recalc_balance realized_pnl_append realized_pnl_open
        reachable_balance)
qed

text \<open>The amended C4 at a SELL on a fresh engine.\<close>

theorem C4_witness:
  "reachable (PaperTradingEngine ''t0'' 10000) \<and>
   fst (place_order ''t1'' ''A'' ''Market A'' ''A_YES'' ''SELL'' 0.5 10 ''LIMIT'' []
          (PaperTradingEngine ''t0'' 10000)) = Some ''PAPER_t1'' \<and>
   balance (snd (place_order ''t1'' ''A'' ''Market A'' ''A_YES'' ''SELL'' 0.5 10 ''LIMIT'' []
          (PaperTradingEngine ''t0'' 10000))) = 10000"
  using C4_sell_without_position[of "PaperTradingEngine ''t0'' 10000" "''A''" "''A_YES''"
      "''t1''" "''Market A''" "0.5" 10 "''LIMIT''" "[]"]
    r_init[of "''t0''" 10000]
  by (simp add: fresh_engine)

text \<open>
  Claim C6, as stated, fails: two accepted BUYs into one pair of a fresh engine leave
  two position rows for that pair.
\<close>

theorem C6_counterexample:
  "fst (place_order ''t1'' ''A'' ''Market A'' ''A_YES'' ''BUY'' 0.5 100 ''LIMIT'' []
      (PaperTradingEngine ''t0'' 10000)) = Some ''PAPER_t1'' \<and>
   fst (place_order ''t2'' ''A'' ''Market A'' ''A_YES'' ''BUY'' 0.25 40 ''LIMIT'' []
      (snd (place_order ''t1'' ''A'' ''Market A'' ''A_YES'' ''BUY'' 0.5 100 ''LIMIT'' []
      (PaperTradingEngine ''t0'' 10000)))) = Some ''PAPER_t2'' \<and>
   \<not> length (filter (pos_mask ''A'' ''A_YES'') (positions_df (snd (place_order ''t2'' ''A'' ''Market A'' ''A_YES'' ''BUY'' 0.25 40 ''LIMIT'' []
      (snd (place_order ''t1'' ''A'' ''Market A'' ''A_YES'' ''BUY'' 0.5 100 ''LIMIT'' []
      (PaperTradingEngine ''t0'' 10000))))))) \<le> 1"
  by (simp add: fresh_engine place_order_def add_position_def
      recalculate_balance_def closed_trades_def pos_mask_def Let_def)



lemma realized_pnl_closed:
  "realized_pnl [tr\<lparr>t_status := ''CLOSED'', t_pnl := v\<rparr>] = v"
  by (simp add: realized_pnl_def closed_trades_def)




text \<open>
  Claim C6, amended. In every reachable state a pair has as many position rows as it has
  OPEN BUY trade records; each accepted BUY appends a row, so after two accepted BUYs
  into one pair with no SELL in between the pair has two rows more than before.
\<close>

theorem C6_positions_match_open_buys:
  assumes "reachable e"
  shows "length (filter (pos_mask m t) (positions_df e)) =
           length (filter (buy_trade_mask m t) (trades_df e)) \<and>
         (p1 * s1 \<le> balance e \<and> p2 * s2 \<le> balance e \<longrightarrow>
            fst (place_order now1 m mt1 t ''BUY'' p1 s1 ot1 n1 e) = Some (''PAPER_'' @ now1) \<and>
            fst (place_order now2 m mt2 t ''BUY'' p2 s2 ot2 n2
                  (snd (place_order now1 m mt1 t ''BUY'' p1 s1 ot1 n1 e))) = Some (''PAPER_'' @ now2) \<and>
            length (filter (pos_mask m t)
              (positions_df (snd (place_order now2 m mt2 t ''BUY'' p2 s2 ot2 n2
                  (snd (place_order now1 m mt1 t ''BUY'' p1 s1 ot1 n1 e)))))) =
              length (filter (pos_mask m t) (positions_df e)) + 2)"
proof -
  let ?e1 = "snd (place_order now1 m mt1 t ''BUY'' p1 s1 ot1 n1 e)"
  have inv: "length (filter (pos_mask m t) (positions_df e)) =
           length (filter (buy_trade_mask m t) (trades_df e))"
    using reachable_counts[OF assms] by (simp add: counts_agree_def)
  have two: ?thesis if ok1: "p1 * s1 \<le> balance e" and ok2: "p2 * s2 \<le> balance e"
  proof -
    have b1: "balance ?e1 = balance e"
      using assms ok1 by (rule buy_keeps_balance)
    have ok2': "p2 * s2 \<le> balance ?e1" using ok2 b1 by simp
    have pos1: "positions_df ?e1 = positions_df e @ [new_position now1 m mt1 t ''BUY'' p1 s1]"
      using ok1 by (simp add: place_order_buy recalc_fields)
    have pos2: "positions_df (snd (place_order now2 m mt2 t ''BUY'' p2 s2 ot2 n2 ?e1)) =
        positions_df ?e1 @ [new_position now2 m mt2 t ''BUY'' p2 s2]"
      using ok2' by (simp add: place_order_buy recalc_fields)
    have m: "pos_mask m t (new_position nw m mtt t ''BUY'' pp ss)" for nw mtt pp ss
      by (simp add: pos_mask_def new_position_def)
    have r1: "fst (place_order now1 m mt1 t ''BUY'' p1 s1 ot1 n1 e) = Some (''PAPER_'' @ now1)"
      using ok1 by (simp add: place_order_buy)
    have r2: "fst (place_order now2 m mt2 t ''BUY'' p2 s2 ot2 n2 ?e1) = Some (''PAPER_'' @ now2)"
      using ok2' by (simp add: place_order_buy)
    show ?thesis using inv r1 r2 by (simp add: pos2 pos1 m)
  qed
  show ?thesis using inv two by blast
qed

text \<open>The amended C6 at two BUYs on a fresh engine.\<close>

theorem C6_witness:
  "reachable (PaperTradingEngine ''t0'' 10000) \<and>
   length (filter (pos_mask ''A'' ''A_YES'')
     (positions_df (snd (place_order ''t2'' ''A'' ''Market A'' ''A_YES'' ''BUY'' 0.25 40 ''LIMIT'' []
        (snd (place_order ''t1'' ''A'' ''Market A'' ''A_YES'' ''BUY'' 0.5 100 ''LIMIT'' []
          (PaperTradingEngine ''t0'' 10000))))))) = 2"
  using C6_positions_match_open_buys[of "PaperTradingEngine ''t0'' 10000" "''A''" "''A_YES''"
      "0.5" 100 "0.25" 40 "''t1''" "''Market A''" "''LIMIT''" "[]" "''t2''" "''Market A''" "''LIMIT''" "[]"]
    r_init[of "''t0''" 10000]
  by (simp add: fresh_engine)



section \<open>Properties of the whale tracker\<close>

lemma update_whale_wallet_trades:
  "whale_trades_df (update_whale_wallet now now' wallet stats a) = whale_trades_df a"
  "whale_trades_detected (update_whale_wallet now now' wallet stats a) = whale_trades_detected a"
  by (simp_all add: update_whale_wallet_def Let_def)

lemma evaluate_copy_trade_trades:
  "whale_trades_df (fst (evaluate_copy_trade cfg ok fmt now m mt sd usd w wr ae)) = whale_trades_df (fst ae)"
  "whale_trades_detected (fst (evaluate_copy_trade cfg ok fmt now m mt sd usd w wr ae)) = whale_trades_detected (fst ae)"
  by (simp_all add: evaluate_copy_trade_def Let_def)

lemma process_whale_trade_flags:
  "whale_trades_detected (fst (process_whale_trade cfg x (pl\<lparr>pl_price := Num p, pl_size := Num s\<rparr>) usd ae)) =
     whale_trades_detected (fst ae) + 1"
  "map wt_usd_value (whale_trades_df (fst (process_whale_trade cfg x (pl\<lparr>pl_price := Num p, pl_size := Num s\<rparr>) usd ae))) =
     map wt_usd_value (whale_trades_df (fst ae)) @ [usd]"
  by (simp_all add: process_whale_trade_def Let_def evaluate_copy_trade_trades update_whale_wallet_trades)

text \<open>
  Claim C8. A trade event (topic \<open>activity\<close>, type \<open>orders_matched\<close>) with numeric
  price \<open>p\<close> and size \<open>s\<close> is counted and logged as a whale trade, with
  \<open>usd_value = p * s\<close>, when \<open>p * s\<close> reaches the threshold, and is neither counted nor
  logged when it does not. The threshold of the source is 10000: there 0.02 times 600000
  (12000) is a whale trade and 0.02 times 100000 is not.
\<close>

theorem C8_whale_classifier:
  "(p * s \<ge> MIN_WHALE_TRADE_SIZE cfg \<longrightarrow>
      whale_trades_detected (fst (on_ws_message cfg x
          (Dict (Some ''orders_matched'') (Some ''activity'') (pl\<lparr>pl_price := Num p, pl_size := Num s\<rparr>)) (a, e))) =
        whale_trades_detected a + 1 \<and>
      map wt_usd_value (whale_trades_df (fst (on_ws_message cfg x
          (Dict (Some ''orders_matched'') (Some ''activity'') (pl\<lparr>pl_price := Num p, pl_size := Num s\<rparr>)) (a, e)))) =
        map wt_usd_value (whale_trades_df a) @ [p * s]) \<and>
   (p * s < MIN_WHALE_TRADE_SIZE cfg \<longrightarrow>
      whale_trades_detected (fst (on_ws_message cfg x
          (Dict (Some ''orders_matched'') (Some ''activity'') (pl\<lparr>pl_price := Num p, pl_size := Num s\<rparr>)) (a, e))) =
        whale_trades_detected a \<and>
      whale_trades_df (fst (on_ws_message cfg x
          (Dict (Some ''orders_matched'') (Some ''activity'') (pl\<lparr>pl_price := Num p, pl_size := Num s\<rparr>)) (a, e))) =
        whale_trades_df a) \<and>
   MIN_WHALE_TRADE_SIZE default_config = 10000 \<and>
   whale_trades_detected (fst (on_ws_message default_config x
       (Dict (Some ''orders_matched'') (Some ''activity'') (pl\<lparr>pl_price := Num 0.02, pl_size := Num 600000\<rparr>)) (a, e))) =
     whale_trades_detected a + 1 \<and>
   map wt_usd_value (whale_trades_df (fst (on_ws_message default_config x
       (Dict (Some ''orders_matched'') (Some ''activity'') (pl\<lparr>pl_price := Num 0.02, pl_size := Num 600000\<rparr>)) (a, e)))) =
     map wt_usd_value (whale_trades_df a) @ [12000] \<and>
   whale_trades_detected (fst (on_ws_message default_config x
       (Dict (Some ''orders_matched'') (Some ''activity'') (pl\<lparr>pl_price := Num 0.02, pl_size := Num 100000\<rparr>)) (a, e))) =
     whale_trades_detected a \<and>
   whale_trades_df (fst (on_ws_message default_config x
       (Dict (Some ''orders_matched'') (Some ''activity'') (pl\<lparr>pl_price := Num 0.02, pl_size := Num 100000\<rparr>)) (a, e))) =
     whale_trades_df a"
  by (simp add: on_ws_message_def Let_def process_whale_trade_flags default_config_def)

text \<open>The statement of C8 at an event of 15000 on a fresh agent.\<close>

theorem C8_witness:
  "whale_trades_detected (fst (on_ws_message default_config
      \<lparr>x_now = ''t1'', x_now' = ''t1'', x_trader_stats = [], x_ai_approved = False, x_fmt = (\<lambda>r. [])\<rparr>
      (Dict (Some ''orders_matched'') (Some ''activity'')
        \<lparr>pl_eventSlug = Some ''m'', pl_title = Some ''M'', pl_trader = Some ''0xabc'',
         pl_side = Some ''BUY'', pl_price = Num 0.5, pl_size = Num 30000\<rparr>)
      (WhaleTrackerAgent, PaperTradingEngine ''t0'' 10000))) = 1"
  using C8_whale_classifier[where p = "0.5" and s = 30000 and cfg = default_config
      and x = "\<lparr>x_now = ''t1'', x_now' = ''t1'', x_trader_stats = [], x_ai_approved = False, x_fmt = (\<lambda>r. [])\<rparr>"
      and pl = "\<lparr>pl_eventSlug = Some ''m'', pl_title = Some ''M'', pl_trader = Some ''0xabc'',
         pl_side = Some ''BUY'', pl_price = Num 0.5, pl_size = Num 30000\<rparr>"
      and a = WhaleTrackerAgent and e = "PaperTradingEngine ''t0'' 10000"]
  by (simp add: default_config_def WhaleTrackerAgent_def)

text \<open>
  Claim C9, as stated, fails in one point: the row of a new wallet need not have
  \<open>first_seen = last_seen\<close>. The two fields are filled from two successive readings of
  the clock, and when the clock has advanced between them they differ.
\<close>

theorem C9_counterexample:
  "''0xabc'' \<notin> set (map wallet_address (whale_wallets_df WhaleTrackerAgent)) \<and>
   first_seen (last (whale_wallets_df
      (update_whale_wallet ''2026-01-01T00:00:00.000001'' ''2026-01-01T00:00:00.000002''
         ''0xabc'' [] WhaleTrackerAgent))) = ''2026-01-01T00:00:00.000001'' \<and>
   last_seen (last (whale_wallets_df
      (update_whale_wallet ''2026-01-01T00:00:00.000001'' ''2026-01-01T00:00:00.000002''
         ''0xabc'' [] WhaleTrackerAgent))) = ''2026-01-01T00:00:00.000002'' \<and>
   first_seen (last (whale_wallets_df
      (update_whale_wallet ''2026-01-01T00:00:00.000001'' ''2026-01-01T00:00:00.000002''
         ''0xabc'' [] WhaleTrackerAgent))) \<noteq>
   last_seen (last (whale_wallets_df
      (update_whale_wallet ''2026-01-01T00:00:00.000001'' ''2026-01-01T00:00:00.000002''
         ''0xabc'' [] WhaleTrackerAgent)))"
  by (simp add: WhaleTrackerAgent_def update_whale_wallet_def)

text \<open>
  Claim C9, amended. For an unseen wallet one row is appended, with \<open>trade_count = 1\<close>,
  \<open>first_seen\<close> the first reading of the clock (\<open>now\<close>) and \<open>last_seen\<close> the second
  (\<open>now'\<close>). For a wallet already seen, its rows get \<open>trade_count\<close> plus one and
  \<open>last_seen = now\<close>, keep \<open>first_seen\<close>, and have \<open>win_rate\<close>, \<open>total_volume\<close> and
  \<open>profit_loss\<close> replaced from \<open>stats\<close> (a missing key reads as 0) exactly when \<open>stats\<close>
  is not empty; all other rows are unchanged.
\<close>

theorem C9_record_sighting:
  "(wallet \<notin> set (map wallet_address (whale_wallets_df a)) \<longrightarrow>
      butlast (whale_wallets_df (update_whale_wallet now now' wallet stats a)) = whale_wallets_df a \<and>
      whale_wallets_df (update_whale_wallet now now' wallet stats a) \<noteq> [] \<and>
      wallet_address (last (whale_wallets_df (update_whale_wallet now now' wallet stats a))) = wallet \<and>
      trade_count (last (whale_wallets_df (update_whale_wallet now now' wallet stats a))) = 1 \<and>
      first_seen (last (whale_wallets_df (update_whale_wallet now now' wallet stats a))) = now \<and>
      last_seen (last (whale_wallets_df (update_whale_wallet now now' wallet stats a))) = now') \<and>
   (wallet \<in> set (map wallet_address (whale_wallets_df a)) \<longrightarrow>
      length (whale_wallets_df (update_whale_wallet now now' wallet stats a)) = length (whale_wallets_df a) \<and>
      (\<forall>i < length (whale_wallets_df a).
         (wallet_address (whale_wallets_df a ! i) \<noteq> wallet \<longrightarrow>
            whale_wallets_df (update_whale_wallet now now' wallet stats a) ! i = whale_wallets_df a ! i) \<and>
         (wallet_address (whale_wallets_df a ! i) = wallet \<longrightarrow>
            wallet_address (whale_wallets_df (update_whale_wallet now now' wallet stats a) ! i) = wallet \<and>
            first_seen (whale_wallets_df (update_whale_wallet now now' wallet stats a) ! i) =
              first_seen (whale_wallets_df a ! i) \<and>
            trade_count (whale_wallets_df (update_whale_wallet now now' wallet stats a) ! i) =
              trade_count (whale_wallets_df a ! i) + 1 \<and>
            last_seen (whale_wallets_df (update_whale_wallet now now' wallet stats a) ! i) = now \<and>
            (stats = [] \<longrightarrow>
               win_rate (whale_wallets_df (update_whale_wallet now now' wallet stats a) ! i) =
                 win_rate (whale_wallets_df a ! i) \<and>
               total_volume (whale_wallets_df (update_whale_wallet now now' wallet stats a) ! i) =
                 total_volume (whale_wallets_df a ! i) \<and>
               profit_loss (whale_wallets_df (update_whale_wallet now now' wallet stats a) ! i) =
                 profit_loss (whale_wallets_df a ! i)) \<and>
            (stats \<noteq> [] \<longrightarrow>
               win_rate (whale_wallets_df (update_whale_wallet now now' wallet stats a) ! i) =
                 dict_get stats ''win_rate'' 0 \<and>
               total_volume (whale_wallets_df (update_whale_wallet now now' wallet stats a) ! i) =
                 dict_get stats ''total_volume'' 0 \<and>
               profit_loss (whale_wallets_df (update_whale_wallet now now' wallet stats a) ! i) =
                 dict_get stats ''profit_loss'' 0))))"
proof (cases "wallet \<in> set (map wallet_address (whale_wallets_df a))")
  case False
  then show ?thesis by (simp add: update_whale_wallet_def Let_def)
next
  case True
  then show ?thesis by (simp add: update_whale_wallet_def Let_def)
qed

text \<open>
  The amended C9 at a first sighting with statistics, the clock advancing between the
  two readings, and a second sighting without statistics.
\<close>

theorem C9_witness:
  "trade_count (whale_wallets_df (update_whale_wallet ''t2'' ''t2b'' ''0xabc'' []
      (update_whale_wallet ''t1'' ''t1b'' ''0xabc'' [(''win_rate'', 72)] WhaleTrackerAgent)) ! 0) = 2 \<and>
   win_rate (whale_wallets_df (update_whale_wallet ''t2'' ''t2b'' ''0xabc'' []
      (update_whale_wallet ''t1'' ''t1b'' ''0xabc'' [(''win_rate'', 72)] WhaleTrackerAgent)) ! 0) = 72 \<and>
   last_seen (whale_wallets_df (update_whale_wallet ''t2'' ''t2b'' ''0xabc'' []
      (update_whale_wallet ''t1'' ''t1b'' ''0xabc'' [(''win_rate'', 72)] WhaleTrackerAgent)) ! 0) = ''t2'' \<and>
   first_seen (last (whale_wallets_df
      (update_whale_wallet ''t1'' ''t1b'' ''0xabc'' [(''win_rate'', 72)] WhaleTrackerAgent))) = ''t1'' \<and>
   last_seen (last (whale_wallets_df
      (update_whale_wallet ''t1'' ''t1b'' ''0xabc'' [(''win_rate'', 72)] WhaleTrackerAgent))) = ''t1b''"
  using C9_record_sighting[where wallet = "''0xabc''" and now = "''t2''" and now' = "''t2b''"
      and stats = "[]"
      and a = "update_whale_wallet ''t1'' ''t1b'' ''0xabc'' [(''win_rate'', 72)] WhaleTrackerAgent"]
    C9_record_sighting[where wallet = "''0xabc''" and now = "''t1''" and now' = "''t1b''"
      and stats = "[(''win_rate'', 72)]" and a = WhaleTrackerAgent]
  by (simp add: WhaleTrackerAgent_def update_whale_wallet_def dict_get_def)

text \<open>
  Claim C7. With all gates passed, the order is to be worth \<open>copy_size_usd\<close>. The caller
  passes \<open>copy_size_usd\<close> as \<open>size\<close> with the remark that it will be converted to shares,
  and \<open>place_market_order\<close> passes it on as the number of shares at the simulated price
  0.50. For a whale trade of 50000 the copy size is 100, the signal records 100, and the
  order placed is 100 shares at 0.50, worth 50.
\<close>

theorem C7_copy_order_value_halved:
  "min (50000 * (COPY_PERCENTAGE (default_config\<lparr>AUTO_COPY_ENABLED := True\<rparr>) / 100))
       (MAX_POSITION_SIZE (default_config\<lparr>AUTO_COPY_ENABLED := True\<rparr>)) = 100 \<and>
   map cs_our_size (copy_signals_df (fst (evaluate_copy_trade
       (default_config\<lparr>AUTO_COPY_ENABLED := True\<rparr>) True (\<lambda>r. ''75.0'') ''t1'' ''election''
       ''Election'' ''YES'' 50000 ''0xabc'' 75
       (WhaleTrackerAgent, PaperTradingEngine ''t0'' 10000)))) = [100] \<and>
   map cs_executed (copy_signals_df (fst (evaluate_copy_trade
       (default_config\<lparr>AUTO_COPY_ENABLED := True\<rparr>) True (\<lambda>r. ''75.0'') ''t1'' ''election''
       ''Election'' ''YES'' 50000 ''0xabc'' 75
       (WhaleTrackerAgent, PaperTradingEngine ''t0'' 10000)))) = [True] \<and>
   map t_price (trades_df (snd (evaluate_copy_trade
       (default_config\<lparr>AUTO_COPY_ENABLED := True\<rparr>) True (\<lambda>r. ''75.0'') ''t1'' ''election''
       ''Election'' ''YES'' 50000 ''0xabc'' 75
       (WhaleTrackerAgent, PaperTradingEngine ''t0'' 10000)))) = [0.5] \<and>
   map t_size (trades_df (snd (evaluate_copy_trade
       (default_config\<lparr>AUTO_COPY_ENABLED := True\<rparr>) True (\<lambda>r. ''75.0'') ''t1'' ''election''
       ''Election'' ''YES'' 50000 ''0xabc'' 75
       (WhaleTrackerAgent, PaperTradingEngine ''t0'' 10000)))) = [100] \<and>
   map t_usd_value (trades_df (snd (evaluate_copy_trade
       (default_config\<lparr>AUTO_COPY_ENABLED := True\<rparr>) True (\<lambda>r. ''75.0'') ''t1'' ''election''
       ''Election'' ''YES'' 50000 ''0xabc'' 75
       (WhaleTrackerAgent, PaperTradingEngine ''t0'' 10000)))) = [50]"
  by (simp add: evaluate_copy_trade_def place_market_order_def get_balance_def py_or_def
      default_config_def WhaleTrackerAgent_def fresh_engine place_order_buy recalc_fields
      new_trade_def Let_def)

text \<open>In general the order of a copy is worth half the copy size.\<close>

lemma place_market_order_value:
  assumes "0.5 * usd \<le> balance e"
  shows "trades_df (snd (place_market_order now tok usd ''BUY'' m mt n e)) =
           trades_df e @ [new_trade now (py_or m ''unknown'') (py_or mt ''Unknown Market'') tok ''BUY''
               0.5 usd ''MARKET'' (py_or n ''Market order (simulated price)'')]"
  using assms by (simp add: place_market_order_def place_order_buy recalc_fields)



end
